theory Spec2Isabelle
  imports Main
begin

section \<open>Role and permission types (lib/types/roles.ts)\<close>

text \<open>
  \<^verbatim>\<open>AdminRole\<close> and \<^verbatim>\<open>PermissionKey\<close> are closed unions of string literals in the
  source; each literal is one constructor here, in the order of the source.
\<close>

datatype AdminRole = Super_admin | Moderator | Support | Analyst | Custom

datatype PermissionKey =
    Users_view | Users_edit | Users_suspend | Users_delete | Users_assign_role
  | Listings_view | Listings_edit | Listings_delete | Listings_publish | Listings_unpublish
  | Disputes_view | Disputes_resolve | Disputes_appeal
  | Support_manage_tickets | Support_respond
  | Reports_view | Reports_generate | Reports_export
  | Payments_view | Payments_refund | Payments_manage_fees
  | Settings_admin | Settings_system | Audit_view | Audit_export
  | Roles_view | Roles_create | Roles_edit | Roles_delete

text \<open>The string literal behind each permission key (used when a key is printed).\<close>

fun key_name :: "PermissionKey \<Rightarrow> string" where
  "key_name Users_view = ''users.view''"
| "key_name Users_edit = ''users.edit''"
| "key_name Users_suspend = ''users.suspend''"
| "key_name Users_delete = ''users.delete''"
| "key_name Users_assign_role = ''users.assign_role''"
| "key_name Listings_view = ''listings.view''"
| "key_name Listings_edit = ''listings.edit''"
| "key_name Listings_delete = ''listings.delete''"
| "key_name Listings_publish = ''listings.publish''"
| "key_name Listings_unpublish = ''listings.unpublish''"
| "key_name Disputes_view = ''disputes.view''"
| "key_name Disputes_resolve = ''disputes.resolve''"
| "key_name Disputes_appeal = ''disputes.appeal''"
| "key_name Support_manage_tickets = ''support.manage_tickets''"
| "key_name Support_respond = ''support.respond''"
| "key_name Reports_view = ''reports.view''"
| "key_name Reports_generate = ''reports.generate''"
| "key_name Reports_export = ''reports.export''"
| "key_name Payments_view = ''payments.view''"
| "key_name Payments_refund = ''payments.refund''"
| "key_name Payments_manage_fees = ''payments.manage_fees''"
| "key_name Settings_admin = ''settings.admin''"
| "key_name Settings_system = ''settings.system''"
| "key_name Audit_view = ''audit.view''"
| "key_name Audit_export = ''audit.export''"
| "key_name Roles_view = ''roles.view''"
| "key_name Roles_create = ''roles.create''"
| "key_name Roles_edit = ''roles.edit''"
| "key_name Roles_delete = ''roles.delete''"

text \<open>
  The whole catalog: every member of the \<^verbatim>\<open>PermissionKey\<close> union, in the order of its
  declaration.
\<close>

definition catalog :: "PermissionKey list" where
  "catalog =
    [Users_view, Users_edit, Users_suspend, Users_delete, Users_assign_role,
     Listings_view, Listings_edit, Listings_delete, Listings_publish, Listings_unpublish,
     Disputes_view, Disputes_resolve, Disputes_appeal,
     Support_manage_tickets, Support_respond,
     Reports_view, Reports_generate, Reports_export,
     Payments_view, Payments_refund, Payments_manage_fees,
     Settings_admin, Settings_system, Audit_view, Audit_export,
     Roles_view, Roles_create, Roles_edit, Roles_delete]"

text \<open>
  \<^verbatim>\<open>ROLE_PERMISSIONS: Record<AdminRole, PermissionKey[]>\<close>, the object literal as an
  association list: one entry per key, each array in the order of the source.
\<close>

definition ROLE_PERMISSIONS :: "(AdminRole \<times> PermissionKey list) list" where
  "ROLE_PERMISSIONS =
    [(Super_admin,
        [Users_view, Users_edit, Users_suspend, Users_delete, Users_assign_role,
         Listings_view, Listings_edit, Listings_delete, Listings_publish, Listings_unpublish,
         Disputes_view, Disputes_resolve, Disputes_appeal,
         Support_manage_tickets, Support_respond,
         Reports_view, Reports_generate, Reports_export,
         Payments_view, Payments_refund, Payments_manage_fees,
         Settings_admin, Settings_system, Audit_view, Audit_export,
         Roles_view, Roles_create, Roles_edit, Roles_delete]),
     (Moderator,
        [Users_view, Users_edit, Users_suspend,
         Listings_view, Listings_edit, Listings_delete, Listings_publish, Listings_unpublish,
         Disputes_view, Disputes_resolve,
         Support_manage_tickets, Support_respond,
         Reports_view, Audit_view, Roles_view]),
     (Support,
        [Users_view, Disputes_view, Disputes_resolve,
         Support_manage_tickets, Support_respond,
         Reports_view, Audit_view]),
     (Analyst,
        [Users_view, Listings_view, Disputes_view,
         Reports_view, Reports_generate, Reports_export,
         Audit_view, Roles_view]),
     (Custom, [])]"

text \<open>
  A JavaScript value that may be \<^verbatim>\<open>undefined\<close> (an absent optional field or argument),
  \<^verbatim>\<open>null\<close> (a NULL column), or present.
\<close>

datatype 'a optional = Undefined | Null | Present 'a

text \<open>JavaScript truthiness of such a value when the present case is an array: every array,
  the empty one too, is truthy; \<^verbatim>\<open>undefined\<close> and \<^verbatim>\<open>null\<close> are falsy.\<close>

fun truthy_array :: "'a list optional \<Rightarrow> bool" where
  "truthy_array (Present xs) = True"
| "truthy_array Null = False"
| "truthy_array Undefined = False"

datatype AdminStatus = Active | Inactive | Suspended

text \<open>\<^verbatim>\<open>AdminUser\<close>: the admin record (the row of table \<^verbatim>\<open>admin_users\<close>). The fields
  \<^verbatim>\<open>id\<close>, \<^verbatim>\<open>user_id\<close> and \<^verbatim>\<open>role\<close> carry the prefix \<open>row_\<close>, the others keep their
  names.\<close>

record AdminUser =
  row_id :: string
  row_user_id :: string
  row_role :: AdminRole
  custom_permissions :: "PermissionKey list optional"
  assigned_at :: string
  assigned_by :: string
  status :: AdminStatus
  created_at :: string
  updated_at :: string

text \<open>\<^verbatim>\<open>AuthorizationContext\<close>.\<close>

record AuthorizationContext =
  user_id :: string
  admin_id :: "string option"
  role :: "AdminRole option"
  permissions :: "PermissionKey list"
  is_admin :: bool
  is_super_admin :: bool

section \<open>Permission checking and role utilities (lib/auth/roles.ts)\<close>

definition hasPermission :: "AuthorizationContext \<Rightarrow> PermissionKey \<Rightarrow> bool" where
  "hasPermission context permission = (permission \<in> set (permissions context))"

definition hasAllPermissions :: "AuthorizationContext \<Rightarrow> PermissionKey list \<Rightarrow> bool" where
  "hasAllPermissions context ps = list_all (\<lambda>p. hasPermission context p) ps"

definition hasAnyPermission :: "AuthorizationContext \<Rightarrow> PermissionKey list \<Rightarrow> bool" where
  "hasAnyPermission context ps = list_ex (\<lambda>p. hasPermission context p) ps"

text \<open>
  \<^verbatim>\<open>getRolePermissions\<close>: \<^verbatim>\<open>ROLE_PERMISSIONS[role] || []\<close> is the lookup with the empty
  array for a missing key (an array that is found is truthy, so it is kept as it is);
  a custom role with a truthy explicit list returns that list.
\<close>

definition basePermissions :: "AdminRole \<Rightarrow> PermissionKey list" where
  "basePermissions r = (case map_of ROLE_PERMISSIONS r of Some ps \<Rightarrow> ps | None \<Rightarrow> [])"

definition getRolePermissions ::
  "AdminRole \<Rightarrow> PermissionKey list optional \<Rightarrow> PermissionKey list" where
  "getRolePermissions r customPermissions =
    (if r = Custom \<and> truthy_array customPermissions
     then (case customPermissions of Present ps \<Rightarrow> ps | _ \<Rightarrow> basePermissions r)
     else basePermissions r)"

definition createAuthorizationContext :: "AdminUser \<Rightarrow> AuthorizationContext" where
  "createAuthorizationContext admin =
    (let ps = getRolePermissions (row_role admin) (custom_permissions admin)
     in \<lparr> user_id = row_user_id admin,
          admin_id = Some (row_id admin),
          role = Some (row_role admin),
          permissions = ps,
          is_admin = (status admin = Active),
          is_super_admin = (row_role admin = Super_admin \<and> status admin = Active) \<rparr>)"

subsection \<open>Role hierarchy\<close>

text \<open>\<^verbatim>\<open>ROLE_HIERARCHY: Record<AdminRole, number>\<close>, in the order of the source.\<close>

definition ROLE_HIERARCHY :: "(AdminRole \<times> int) list" where
  "ROLE_HIERARCHY =
    [(Super_admin, 100), (Moderator, 60), (Support, 40), (Analyst, 20), (Custom, 30)]"

text \<open>\<^verbatim>\<open>ROLE_HIERARCHY[r] ?? 0\<close>.\<close>

definition level :: "AdminRole \<Rightarrow> int" where
  "level r = (case map_of ROLE_HIERARCHY r of Some n \<Rightarrow> n | None \<Rightarrow> 0)"

definition canManageRole :: "AdminRole \<Rightarrow> AdminRole \<Rightarrow> bool" where
  "canManageRole manager_role target_role =
    (if manager_role = Super_admin then True
     else (let manager_level = level manager_role;
               target_level = level target_role
           in manager_level > target_level))"

text \<open>\<^verbatim>\<open>validateRoleAssignment\<close>: \<^verbatim>\<open>!assigner_context.role\<close> holds exactly for a role
  that is absent, since every role literal is a non-empty string.\<close>

definition validateRoleAssignment :: "AuthorizationContext \<Rightarrow> AdminRole \<Rightarrow> bool" where
  "validateRoleAssignment assigner_context target_role =
    (if \<not> hasPermission assigner_context Users_assign_role then False
     else (case role assigner_context of
             None \<Rightarrow> False
           | Some r \<Rightarrow> canManageRole r target_role))"

text \<open>The ranks as the specification lists them.\<close>

fun rank :: "AdminRole \<Rightarrow> int" where
  "rank Super_admin = 100"
| "rank Moderator = 60"
| "rank Support = 40"
| "rank Custom = 30"
| "rank Analyst = 20"

subsection \<open>Error bodies\<close>

text \<open>A JSON response body: the fields the handlers write. \<open>body_status\<close> is the
  \<^verbatim>\<open>status\<close> field the two error helpers put into the body itself; \<open>payload\<close> is the
  \<^verbatim>\<open>data\<close> field of a success body.\<close>

record api_body =
  success :: bool
  error :: "string option"
  message :: "string option"
  body_status :: "nat option"
  payload :: "AdminUser option"

text \<open>\<^verbatim>\<open>permissionDeniedError(permission?)\<close>: a permission key is a non-empty string,
  so it is truthy exactly when it is given.\<close>

definition permissionDeniedError :: "PermissionKey option \<Rightarrow> api_body" where
  "permissionDeniedError permission =
    \<lparr> success = False,
      error = Some ''PERMISSION_DENIED'',
      message = (case permission of
                   Some p \<Rightarrow> Some (''User lacks required permission: '' @ key_name p)
                 | None \<Rightarrow> Some ''User does not have admin access''),
      body_status = Some 403,
      payload = None \<rparr>"

definition adminAccessRequiredError :: api_body where
  "adminAccessRequiredError =
    \<lparr> success = False,
      error = Some ''ADMIN_ACCESS_REQUIRED'',
      message = Some ''This action requires admin access'',
      body_status = Some 403,
      payload = None \<rparr>"

section \<open>Authorization middleware (middleware/authorization.ts)\<close>

text \<open>
  The collaborators. An awaited call either rejects (the exception reaches the handler's
  \<^verbatim>\<open>catch\<close>) or resolves to the client's \<^verbatim>\<open>{ data, error }\<close> object. For
  \<^verbatim>\<open>auth.getUser(token)\<close> the data is the id of \<^verbatim>\<open>userData.user\<close>, absent when the
  user is null.
\<close>

datatype 'a awaited = Rejected | Resolved 'a

record 'a reply =
  reply_data :: "'a option"
  reply_error :: "string option"

record backend =
  createClient :: "unit awaited"
  getUser :: "string \<Rightarrow> string reply awaited"
  find_active_admin :: "string \<Rightarrow> AdminUser reply awaited"

text \<open>The request: its \<^verbatim>\<open>Authorization\<close> header, if any.\<close>

record request =
  authorization :: "string option"

record response =
  body :: api_body
  http_status :: nat

record AuthorizationResult =
  authorized :: bool
  "context" :: "AuthorizationContext option"
  response :: "response option"
  userId :: "string option"
  adminId :: "string option"

text \<open>\<^verbatim>\<open>requiredPermission?: PermissionKey | PermissionKey[]\<close>.\<close>

datatype required_permission = One PermissionKey | Many "PermissionKey list"

definition startsWith_Bearer :: "string \<Rightarrow> bool" where
  "startsWith_Bearer h = (take 7 h = ''Bearer '')"

text \<open>\<^verbatim>\<open>permissions[0]\<close>: \<^verbatim>\<open>undefined\<close> on the empty array.\<close>

fun first_permission :: "PermissionKey list \<Rightarrow> PermissionKey option" where
  "first_permission [] = None"
| "first_permission (p # ps) = Some p"

definition access_denied :: "string option \<Rightarrow> AuthorizationResult" where
  "access_denied uid =
    \<lparr> authorized = False, context = None,
      response = Some \<lparr> body = adminAccessRequiredError, http_status = 403 \<rparr>,
      userId = uid, adminId = None \<rparr>"

text \<open>The permission check of \<^verbatim>\<open>authorizeRequest\<close>, once the context is built. A given
  \<^verbatim>\<open>requiredPermission\<close> is truthy: a key is a non-empty string, an array is truthy
  even when empty.\<close>

definition check_required ::
  "AuthorizationContext \<Rightarrow> string \<Rightarrow> AdminUser \<Rightarrow> required_permission option \<Rightarrow> bool
     \<Rightarrow> AuthorizationResult" where
  "check_required ctx uid adminData requiredPermission requireAll =
    (let granted = \<lparr> authorized = True, context = Some ctx, response = None,
                      userId = Some uid, adminId = Some (row_id adminData) \<rparr>
     in case requiredPermission of
          None \<Rightarrow> granted
        | Some rp \<Rightarrow>
            (let ps = (case rp of Many xs \<Rightarrow> xs | One p \<Rightarrow> [p]);
                 hasRequired = (if requireAll then list_all (\<lambda>p. hasPermission ctx p) ps
                                else list_ex (\<lambda>p. hasPermission ctx p) ps)
             in if \<not> hasRequired
                then \<lparr> authorized = False, context = Some ctx,
                       response = Some \<lparr> body = permissionDeniedError (first_permission ps),
                                          http_status = 403 \<rparr>,
                       userId = Some uid, adminId = Some (row_id adminData) \<rparr>
                else granted))"

text \<open>The body of the \<^verbatim>\<open>try\<close> block: \<open>Rejected\<close> is an exception thrown inside it.\<close>

definition authorize_try ::
  "backend \<Rightarrow> request \<Rightarrow> required_permission option \<Rightarrow> bool \<Rightarrow> AuthorizationResult awaited" where
  "authorize_try be req requiredPermission requireAll =
    (case createClient be of
       Rejected \<Rightarrow> Rejected
     | Resolved _ \<Rightarrow>
        (case authorization req of
           None \<Rightarrow> Resolved (access_denied None)
         | Some authHeader \<Rightarrow>
            if \<not> startsWith_Bearer authHeader then Resolved (access_denied None)
            else
              (case getUser be (drop 7 authHeader) of
                 Rejected \<Rightarrow> Rejected
               | Resolved u \<Rightarrow>
                  (case (reply_error u, reply_data u) of
                     (None, Some uid) \<Rightarrow>
                       (case find_active_admin be uid of
                          Rejected \<Rightarrow> Rejected
                        | Resolved a \<Rightarrow>
                           (case (reply_error a, reply_data a) of
                              (None, Some adminData) \<Rightarrow>
                                Resolved (check_required (createAuthorizationContext adminData)
                                            uid adminData requiredPermission requireAll)
                            | _ \<Rightarrow> Resolved (access_denied (Some uid))))
                   | _ \<Rightarrow> Resolved (access_denied None)))))"

definition internal_error :: response where
  "internal_error =
    \<lparr> body = \<lparr> success = False, error = Some ''Internal server error'', message = None,
               body_status = None, payload = None \<rparr>,
      http_status = 500 \<rparr>"

definition authorizeRequest ::
  "backend \<Rightarrow> request \<Rightarrow> required_permission option \<Rightarrow> bool \<Rightarrow> AuthorizationResult" where
  "authorizeRequest be req requiredPermission requireAll =
    (case authorize_try be req requiredPermission requireAll of
       Resolved r \<Rightarrow> r
     | Rejected \<Rightarrow>
        \<lparr> authorized = False, context = None, response = Some internal_error,
          userId = None, adminId = None \<rparr>)"

section \<open>The admin_users table and the routes on one record (api/admin/roles/[id]/route.ts)\<close>

text \<open>
  The table is the list of its rows. \<^verbatim>\<open>.single()\<close> gives the row when the query
  matches exactly one row, and an error with no data otherwise.
\<close>

fun single_row :: "'a list \<Rightarrow> 'a reply" where
  "single_row [x] = \<lparr> reply_data = Some x, reply_error = None \<rparr>"
| "single_row xs = \<lparr> reply_data = None, reply_error = Some ''PGRST116'' \<rparr>"

text \<open>\<^verbatim>\<open>.from('admin_users').select('*').eq('user_id', uid).eq('status', 'active').single()\<close>\<close>

definition select_active_by_user :: "AdminUser list \<Rightarrow> string \<Rightarrow> AdminUser reply" where
  "select_active_by_user rows uid =
     single_row (filter (\<lambda>r. row_user_id r = uid \<and> status r = Active) rows)"

text \<open>\<^verbatim>\<open>.from('admin_users').select('*').eq('id', i).single()\<close>\<close>

definition select_by_id :: "AdminUser list \<Rightarrow> string \<Rightarrow> AdminUser reply" where
  "select_by_id rows i = single_row (filter (\<lambda>r. row_id r = i) rows)"

text \<open>The parsed JSON body of a PATCH request. A field that is absent, or present with
  a falsy value, is \<open>None\<close> for the two names; \<^verbatim>\<open>custom_permissions\<close> keeps the
  difference between \<^verbatim>\<open>undefined\<close> and \<^verbatim>\<open>null\<close>, which the handler tests.\<close>

record patch_body =
  body_role :: "string option"
  body_custom_permissions :: "PermissionKey list optional"
  body_new_status :: "string option"
  body_reason :: "string option"

text \<open>\<^verbatim>\<open>if (role)\<close>, \<^verbatim>\<open>if (status)\<close>: a string is truthy when it is not empty. The
  result is the string when it is truthy.\<close>

fun truthy_string :: "string option \<Rightarrow> string option" where
  "truthy_string None = None"
| "truthy_string (Some s) = (if s = [] then None else Some s)"

text \<open>The \<^verbatim>\<open>includes\<close> tests of the handler, with the cast to the union type.\<close>

definition role_of_name :: "string \<Rightarrow> AdminRole option" where
  "role_of_name s =
    map_of [(''super_admin'', Super_admin), (''moderator'', Moderator), (''support'', Support),
            (''analyst'', Analyst), (''custom'', Custom)] s"

definition status_of_name :: "string \<Rightarrow> AdminStatus option" where
  "status_of_name s =
    map_of [(''active'', Active), (''inactive'', Inactive), (''suspended'', Suspended)] s"

text \<open>\<^verbatim>\<open>toUpdate\<close>: the columns the handler sets, each only when it was given.\<close>

record toUpdate =
  upd_role :: "AdminRole option"
  upd_custom_permissions :: "PermissionKey list optional"
  upd_status :: "AdminStatus option"

definition apply_update :: "toUpdate \<Rightarrow> string \<Rightarrow> AdminUser \<Rightarrow> AdminUser" where
  "apply_update u now r =
    r \<lparr> row_role := (case upd_role u of Some x \<Rightarrow> x | None \<Rightarrow> row_role r),
        custom_permissions := (case upd_custom_permissions u of
                                 Undefined \<Rightarrow> custom_permissions r | v \<Rightarrow> v),
        status := (case upd_status u of Some x \<Rightarrow> x | None \<Rightarrow> status r),
        updated_at := now \<rparr>"

text \<open>The table's constraint \<^verbatim>\<open>(role != 'custom') OR (custom_permissions IS NOT NULL)\<close>.\<close>

definition admin_users_role_check :: "AdminUser \<Rightarrow> bool" where
  "admin_users_role_check r = (row_role r \<noteq> Custom \<or> truthy_array (custom_permissions r))"

text \<open>
  \<^verbatim>\<open>.update(toUpdate).eq('id', i).select().single()\<close>. An update that sets no column
  changes nothing and returns no row; a row that would break the constraint fails the
  statement, which then changes nothing. The column \<^verbatim>\<open>id\<close> is the primary key, so
  the statement is committed when it hits one row, which it returns. The trigger
  \<^verbatim>\<open>admin_users_update_timestamp\<close> stamps \<^verbatim>\<open>updated_at\<close> with the time \<open>now\<close>
  of the statement. The entry the audit trigger writes goes to another table; its action
  tag is modelled apart, below.
\<close>

definition db_update ::
  "AdminUser list \<Rightarrow> toUpdate \<Rightarrow> string \<Rightarrow> string \<Rightarrow> AdminUser list \<times> AdminUser reply" where
  "db_update rows u i now =
    (if upd_role u = None \<and> upd_custom_permissions u = Undefined \<and> upd_status u = None
     then (rows, single_row [])
     else (let rows' = map (\<lambda>r. if row_id r = i then apply_update u now r else r) rows;
               hit = filter (\<lambda>r. row_id r = i) rows'
           in case hit of
                [x] \<Rightarrow> if admin_users_role_check x
                       then (rows', single_row hit)
                       else (rows, \<lparr> reply_data = None, reply_error = Some ''23514'' \<rparr>)
              | _ \<Rightarrow> (rows, single_row hit)))"

definition db_delete :: "AdminUser list \<Rightarrow> string \<Rightarrow> AdminUser list" where
  "db_delete rows i = filter (\<lambda>r. row_id r \<noteq> i) rows"

definition json :: "api_body \<Rightarrow> nat \<Rightarrow> response" where
  "json b s = \<lparr> body = b, http_status = s \<rparr>"

definition failure :: "string \<Rightarrow> api_body" where
  "failure e = \<lparr> success = False, error = Some e, message = None,
                 body_status = None, payload = None \<rparr>"

text \<open>
  The steps both handlers share: the bearer token, the user behind it, and the caller's
  active row, which must be a super admin's. \<open>Inl\<close> is the early response, \<open>Inr\<close>
  the caller's user id.
\<close>

definition caller_super_admin ::
  "backend \<Rightarrow> AdminUser list \<Rightarrow> request \<Rightarrow> (response + string) awaited" where
  "caller_super_admin be rows req =
    (case createClient be of
       Rejected \<Rightarrow> Rejected
     | Resolved _ \<Rightarrow>
        (case authorization req of
           None \<Rightarrow> Resolved (Inl (json adminAccessRequiredError 403))
         | Some authHeader \<Rightarrow>
            if \<not> startsWith_Bearer authHeader
            then Resolved (Inl (json adminAccessRequiredError 403))
            else
              (case getUser be (drop 7 authHeader) of
                 Rejected \<Rightarrow> Rejected
               | Resolved u \<Rightarrow>
                  (case reply_data u of
                     None \<Rightarrow> Resolved (Inl (json adminAccessRequiredError 403))
                   | Some uid \<Rightarrow>
                      (case reply_data (select_active_by_user rows uid) of
                         None \<Rightarrow>
                           Resolved (Inl (json (permissionDeniedError (Some Users_assign_role)) 403))
                       | Some currentAdmin \<Rightarrow>
                           if row_role currentAdmin \<noteq> Super_admin
                           then Resolved (Inl (json (permissionDeniedError (Some Users_assign_role)) 403))
                           else Resolved (Inr uid))))))"

text \<open>\<^verbatim>\<open>toUpdate\<close> as the PATCH handler builds it from the body, or the 400 response.\<close>

definition build_update :: "patch_body \<Rightarrow> response + toUpdate" where
  "build_update b =
    (let u0 = \<lparr> upd_role = None, upd_custom_permissions = Undefined, upd_status = None \<rparr>;
         r1 = (case truthy_string (body_role b) of
                 Some name \<Rightarrow>
                   (case role_of_name name of
                      None \<Rightarrow> Inl (json (failure ''Invalid role'') 400)
                    | Some r \<Rightarrow> Inr (u0 \<lparr> upd_role := Some r \<rparr>))
               | None \<Rightarrow> Inr u0)
     in case r1 of
          Inl resp \<Rightarrow> Inl resp
        | Inr u1 \<Rightarrow>
           (let u2 = (if body_custom_permissions b \<noteq> Undefined
                      then u1 \<lparr> upd_custom_permissions := body_custom_permissions b \<rparr>
                      else u1)
            in case truthy_string (body_new_status b) of
                 Some name \<Rightarrow>
                   (case status_of_name name of
                      None \<Rightarrow> Inl (json (failure ''Invalid status'') 400)
                    | Some st \<Rightarrow> Inr (u2 \<lparr> upd_status := Some st \<rparr>))
               | None \<Rightarrow> Inr u2))"

text \<open>
  The \<^verbatim>\<open>try\<close> block of PATCH. The handler returns the response and leaves the table as
  the second component. \<open>parsed\<close> is \<^verbatim>\<open>await request.json()\<close>, which rejects on a
  body that is not JSON.
\<close>

definition PATCH_try ::
  "backend \<Rightarrow> string \<Rightarrow> AdminUser list \<Rightarrow> request \<Rightarrow> string \<Rightarrow> patch_body awaited
     \<Rightarrow> (response \<times> AdminUser list) awaited" where
  "PATCH_try be now rows req i parsed =
    (case caller_super_admin be rows req of
       Rejected \<Rightarrow> Rejected
     | Resolved (Inl resp) \<Rightarrow> Resolved (resp, rows)
     | Resolved (Inr uid) \<Rightarrow>
        (case reply_data (select_by_id rows i) of
           None \<Rightarrow> Resolved (json (failure ''Admin user not found'') 404, rows)
         | Some targetAdmin \<Rightarrow>
            (case parsed of
               Rejected \<Rightarrow> Rejected
             | Resolved b \<Rightarrow>
                (case build_update b of
                   Inl resp \<Rightarrow> Resolved (resp, rows)
                 | Inr u \<Rightarrow>
                    (case db_update rows u i now of
                       (rows', upd) \<Rightarrow>
                         if reply_error upd \<noteq> None
                         then Resolved (json (failure ''Failed to update admin'') 500, rows')
                         else Resolved
                               (json \<lparr> success = True, error = None,
                                       message = Some ''Admin role updated'',
                                       body_status = None, payload = reply_data upd \<rparr> 200,
                                rows'))))))"

definition PATCH ::
  "backend \<Rightarrow> string \<Rightarrow> AdminUser list \<Rightarrow> request \<Rightarrow> string \<Rightarrow> patch_body awaited
     \<Rightarrow> response \<times> AdminUser list" where
  "PATCH be now rows req i parsed =
    (case PATCH_try be now rows req i parsed of
       Resolved out \<Rightarrow> out
     | Rejected \<Rightarrow> (internal_error, rows))"

definition DELETE_try ::
  "backend \<Rightarrow> AdminUser list \<Rightarrow> request \<Rightarrow> string \<Rightarrow> (response \<times> AdminUser list) awaited" where
  "DELETE_try be rows req i =
    (case caller_super_admin be rows req of
       Rejected \<Rightarrow> Rejected
     | Resolved (Inl resp) \<Rightarrow> Resolved (resp, rows)
     | Resolved (Inr uid) \<Rightarrow>
        (case reply_data (select_by_id rows i) of
           None \<Rightarrow> Resolved (json (failure ''Admin user not found'') 404, rows)
         | Some targetAdmin \<Rightarrow>
            if row_user_id targetAdmin = uid
            then Resolved (json (failure ''Cannot remove your own admin access'') 400, rows)
            else Resolved
                  (json \<lparr> success = True, error = None,
                          message = Some ''Admin access removed'',
                          body_status = None, payload = None \<rparr> 200,
                   db_delete rows i)))"

definition DELETE ::
  "backend \<Rightarrow> AdminUser list \<Rightarrow> request \<Rightarrow> string \<Rightarrow> response \<times> AdminUser list" where
  "DELETE be rows req i =
    (case DELETE_try be rows req i of
       Resolved out \<Rightarrow> out
     | Rejected \<Rightarrow> (internal_error, rows))"

section \<open>The audit trigger (migration 20260225_create_admin_rbac.sql)\<close>

text \<open>The row-level trigger event: \<^verbatim>\<open>TG_OP\<close> with the rows \<^verbatim>\<open>OLD\<close> and \<^verbatim>\<open>NEW\<close> that
  exist for it (for an update, \<^verbatim>\<open>OLD\<close> first).\<close>

datatype trigger_event = TG_INSERT AdminUser | TG_UPDATE AdminUser AdminUser | TG_DELETE AdminUser

text \<open>\<^verbatim>\<open>action_type\<close> as \<^verbatim>\<open>audit_role_change()\<close> sets it. Both columns compared are
  \<^verbatim>\<open>NOT NULL\<close>, so each comparison is true or false.\<close>

fun action_type :: "trigger_event \<Rightarrow> string" where
  "action_type (TG_INSERT new) = ''created''"
| "action_type (TG_UPDATE old new) =
    (if status old = Suspended \<and> status new = Active then ''reactivated''
     else if status new = Suspended \<and> status old \<noteq> Suspended then ''suspended''
     else if row_role new \<noteq> row_role old then ''updated''
     else ''updated'')"
| "action_type (TG_DELETE old) = ''deleted''"

text \<open>
  The action inference as the specification words it: the two status tags when only the
  status changes, and between suspended and active; \<^verbatim>\<open>updated\<close> for any other change.
\<close>

definition only_status_changes :: "AdminUser \<Rightarrow> AdminUser \<Rightarrow> bool" where
  "only_status_changes old new =
    (row_role new = row_role old \<and> custom_permissions new = custom_permissions old)"

fun specified_action :: "trigger_event \<Rightarrow> string" where
  "specified_action (TG_INSERT new) = ''created''"
| "specified_action (TG_UPDATE old new) =
    (if only_status_changes old new \<and> status old = Active \<and> status new = Suspended
     then ''suspended''
     else if only_status_changes old new \<and> status old = Suspended \<and> status new = Active
     then ''reactivated''
     else ''updated'')"
| "specified_action (TG_DELETE old) = ''deleted''"

section \<open>Sample data for the concrete evaluations\<close>

definition root_admin :: AdminUser where
  "root_admin =
    \<lparr> row_id = ''a1'', row_user_id = ''u1'', row_role = Super_admin,
      custom_permissions = Null, assigned_at = ''t0'', assigned_by = ''u0'',
      status = Active, created_at = ''t0'', updated_at = ''t0'' \<rparr>"

definition suspended_root :: AdminUser where
  "suspended_root =
    \<lparr> row_id = ''a1'', row_user_id = ''u1'', row_role = Super_admin,
      custom_permissions = Null, assigned_at = ''t0'', assigned_by = ''u0'',
      status = Suspended, created_at = ''t0'', updated_at = ''t0'' \<rparr>"

definition moderator_admin :: AdminUser where
  "moderator_admin =
    \<lparr> row_id = ''a2'', row_user_id = ''u2'', row_role = Moderator,
      custom_permissions = Null, assigned_at = ''t0'', assigned_by = ''u1'',
      status = Active, created_at = ''t0'', updated_at = ''t0'' \<rparr>"

text \<open>An identity service that knows two tokens, and the lookup of the caller's active
  row in a table of the two rows above.\<close>

definition sample_backend :: backend where
  "sample_backend =
    \<lparr> createClient = Resolved (),
      getUser = (\<lambda>token.
         Resolved (if token = ''tok1'' then \<lparr> reply_data = Some ''u1'', reply_error = None \<rparr>
                   else if token = ''tok2'' then \<lparr> reply_data = Some ''u2'', reply_error = None \<rparr>
                   else \<lparr> reply_data = None, reply_error = Some ''invalid JWT'' \<rparr>)),
      find_active_admin = (\<lambda>uid.
         Resolved (select_active_by_user [root_admin, moderator_admin] uid)) \<rparr>"

definition suspend_request :: patch_body where
  "suspend_request =
    \<lparr> body_role = None, body_custom_permissions = Undefined,
      body_new_status = Some ''suspended'', body_reason = None \<rparr>"

definition demote_request :: patch_body where
  "demote_request =
    \<lparr> body_role = Some ''analyst'', body_custom_permissions = Undefined,
      body_new_status = None, body_reason = None \<rparr>"

section \<open>Facts about the tables\<close>

lemma level_rank: "level r = rank r"
  by (cases r) (simp_all add: level_def ROLE_HIERARCHY_def)

lemma basePermissions_Super_admin: "basePermissions Super_admin = catalog"
  by (simp add: basePermissions_def ROLE_PERMISSIONS_def catalog_def)

lemma basePermissions_Custom: "basePermissions Custom = []"
  by (simp add: basePermissions_def ROLE_PERMISSIONS_def)

lemma in_catalog: "p \<in> set catalog"
  by (cases p) (simp_all add: catalog_def)

lemma catalog_nonempty: "catalog \<noteq> []"
  by (simp add: catalog_def)

section \<open>The authorization context\<close>

text \<open>
  C1, as the code has it. A record whose status is not active gives a context with
  \<open>is_admin\<close> and \<open>is_super_admin\<close> both false, whatever its role. Its permission
  list is not emptied: it is the list of the record's role (or the explicit list of a
  custom record), the same list the record would get with status active.
\<close>

theorem inactive_context:
  assumes "status admin \<noteq> Active"
  shows "\<not> is_super_admin (createAuthorizationContext admin)
    \<and> \<not> is_admin (createAuthorizationContext admin)
    \<and> permissions (createAuthorizationContext admin)
        = permissions (createAuthorizationContext (admin \<lparr> status := Active \<rparr>))
    \<and> permissions (createAuthorizationContext admin)
        = getRolePermissions (row_role admin) (custom_permissions admin)"
  using assms by (simp add: createAuthorizationContext_def)

text \<open>The statement above at a suspended super admin.\<close>

theorem inactive_context_witness:
  "status suspended_root \<noteq> Active
   \<and> \<not> is_super_admin (createAuthorizationContext suspended_root)
   \<and> \<not> is_admin (createAuthorizationContext suspended_root)
   \<and> permissions (createAuthorizationContext suspended_root)
        = permissions (createAuthorizationContext (suspended_root \<lparr> status := Active \<rparr>))"
proof -
  have h: "status suspended_root \<noteq> Active" by (simp add: suspended_root_def)
  from inactive_context [OF h] h show ?thesis by simp
qed

text \<open>
  The context of a suspended super admin carries the whole catalog, all 29 keys, so its
  effective permission set is not empty.
\<close>

theorem suspended_super_admin_keeps_permissions:
  "status suspended_root \<noteq> Active \<and> row_role suspended_root = Super_admin
   \<and> permissions (createAuthorizationContext suspended_root) = catalog
   \<and> permissions (createAuthorizationContext suspended_root) \<noteq> []"
  by (simp add: suspended_root_def createAuthorizationContext_def getRolePermissions_def
        basePermissions_Super_admin catalog_nonempty)

text \<open>
  C9: in the context built from any admin record, \<open>is_super_admin\<close> implies
  \<open>is_admin\<close>; both flags require the status to be active.
\<close>

theorem super_admin_context_is_admin:
  "is_super_admin (createAuthorizationContext admin)
     \<longrightarrow> is_admin (createAuthorizationContext admin)"
  by (simp add: createAuthorizationContext_def)

text \<open>An active super admin has both flags.\<close>

theorem super_admin_context_is_admin_witness:
  "is_super_admin (createAuthorizationContext root_admin)
   \<and> is_admin (createAuthorizationContext root_admin)"
proof -
  have h: "is_super_admin (createAuthorizationContext root_admin)"
    by (simp add: createAuthorizationContext_def root_admin_def)
  with super_admin_context_is_admin [of root_admin] show ?thesis by simp
qed

text \<open>
  C6: for the custom role, \<open>getRolePermissions\<close> returns exactly the explicit list it is
  given; the matrix entry of custom is empty; with a null or absent explicit list the
  result is the empty list. The same holds for the permissions of the context built from
  a custom record.
\<close>

theorem getRolePermissions_custom:
  "getRolePermissions Custom (Present explicit) = explicit
   \<and> map_of ROLE_PERMISSIONS Custom = Some []
   \<and> getRolePermissions Custom Null = []
   \<and> getRolePermissions Custom Undefined = []
   \<and> permissions (createAuthorizationContext
        (admin \<lparr> row_role := Custom, custom_permissions := Present explicit \<rparr>)) = explicit
   \<and> permissions (createAuthorizationContext
        (admin \<lparr> row_role := Custom, custom_permissions := Null \<rparr>)) = []
   \<and> permissions (createAuthorizationContext
        (admin \<lparr> row_role := Custom, custom_permissions := Undefined \<rparr>)) = []"
  by (simp add: getRolePermissions_def basePermissions_Custom createAuthorizationContext_def)
     (simp add: ROLE_PERMISSIONS_def)

text \<open>
  C8: the matrix entries of the four built-in roles other than custom together hold
  exactly the catalog, the catalog is the whole of \<open>PermissionKey\<close>, and so every
  permission is in the entry of some role other than custom.
\<close>

theorem matrix_complete:
  "set (basePermissions Super_admin) \<union> set (basePermissions Moderator)
     \<union> set (basePermissions Support) \<union> set (basePermissions Analyst) = set catalog
   \<and> set catalog = (UNIV :: PermissionKey set)
   \<and> (\<exists>r. r \<noteq> Custom \<and> p \<in> set (basePermissions r))"
proof -
  have univ: "set catalog = (UNIV :: PermissionKey set)"
    using in_catalog by blast
  have sub: "set (basePermissions Moderator) \<union> set (basePermissions Support)
       \<union> set (basePermissions Analyst) \<subseteq> set catalog"
    using univ by simp
  have "p \<in> set (basePermissions Super_admin)"
    by (simp add: basePermissions_Super_admin in_catalog)
  then have ex: "\<exists>r. r \<noteq> Custom \<and> p \<in> set (basePermissions r)"
    by (intro exI [of _ Super_admin]) simp
  from sub univ ex show ?thesis
    by (auto simp: basePermissions_Super_admin)
qed

section \<open>The role hierarchy\<close>

text \<open>
  C2: for all 25 pairs of roles, \<open>canManageRole\<close> holds exactly when the manager is a
  super admin or the manager's rank is above the target's, under the ranks 100, 60, 40,
  30, 20. A manager other than a super admin is denied every target of equal or higher
  rank, its own role included.
\<close>

theorem canManageRole_iff_rank:
  "canManageRole manager target = (manager = Super_admin \<or> rank manager > rank target)
   \<and> (manager \<noteq> Super_admin \<and> rank target \<ge> rank manager
        \<longrightarrow> \<not> canManageRole manager target)
   \<and> (manager \<noteq> Super_admin \<longrightarrow> \<not> canManageRole manager manager)"
  by (cases manager; cases target) (simp_all add: canManageRole_def level_rank)

text \<open>A support agent can manage neither a moderator nor another support agent.\<close>

theorem canManageRole_iff_rank_witness:
  "Support \<noteq> Super_admin \<and> rank Moderator \<ge> rank Support
   \<and> \<not> canManageRole Support Moderator \<and> \<not> canManageRole Support Support"
  using canManageRole_iff_rank [of Support Moderator] by simp

text \<open>
  C5: \<open>validateRoleAssignment\<close> holds exactly when the assigner's context contains
  \<^verbatim>\<open>users.assign_role\<close>, the context has a role, and that role can manage the
  target role.
\<close>

theorem validateRoleAssignment_iff:
  "validateRoleAssignment assigner target =
     (Users_assign_role \<in> set (permissions assigner)
      \<and> (\<exists>r. role assigner = Some r \<and> canManageRole r target))"
  by (simp add: validateRoleAssignment_def hasPermission_def split: option.split)

section \<open>The authorization middleware\<close>

subsection \<open>Access denied\<close>

lemma access_denied_response:
  "response (access_denied uid) = Some \<lparr> body = adminAccessRequiredError, http_status = 403 \<rparr>
   \<and> \<not> authorized (access_denied uid)"
  by (simp add: access_denied_def)

lemma authorizeRequest_no_bearer:
  assumes "createClient be = Resolved ()"
      and "authorization req = None \<or> (\<exists>h. authorization req = Some h \<and> \<not> startsWith_Bearer h)"
  shows "authorizeRequest be req rp requireAll = access_denied None"
  using assms by (auto simp: authorizeRequest_def authorize_try_def)

lemma authorizeRequest_invalid_user:
  assumes "createClient be = Resolved ()"
      and "authorization req = Some h" and "startsWith_Bearer h"
      and "getUser be (drop 7 h) = Resolved u"
      and "reply_error u \<noteq> None \<or> reply_data u = None"
  shows "authorizeRequest be req rp requireAll = access_denied None"
  using assms by (auto simp: authorizeRequest_def authorize_try_def split: option.splits)

text \<open>No active admin row, or any error the lookup returns as a value: the same response
  as for a missing principal, with the user id added to the result.\<close>

lemma authorizeRequest_no_active_admin:
  assumes "createClient be = Resolved ()"
      and "authorization req = Some h" and "startsWith_Bearer h"
      and "getUser be (drop 7 h) = Resolved \<lparr> reply_data = Some uid, reply_error = None \<rparr>"
      and "find_active_admin be uid = Resolved a"
      and "reply_error a \<noteq> None \<or> reply_data a = None"
  shows "authorizeRequest be req rp requireAll = access_denied (Some uid)"
  using assms by (auto simp: authorizeRequest_def authorize_try_def split: option.splits)

subsection \<open>Permission denied\<close>

text \<open>With one required key, the response of a failed check names that key, and its
  error code is not the one of access denied.\<close>

lemma authorizeRequest_single_permission_denied:
  assumes "createClient be = Resolved ()"
      and "authorization req = Some h" and "startsWith_Bearer h"
      and "getUser be (drop 7 h) = Resolved \<lparr> reply_data = Some uid, reply_error = None \<rparr>"
      and "find_active_admin be uid = Resolved \<lparr> reply_data = Some adminData, reply_error = None \<rparr>"
      and "\<not> hasPermission (createAuthorizationContext adminData) p"
  shows "response (authorizeRequest be req (Some (One p)) requireAll)
           = Some \<lparr> body = permissionDeniedError (Some p), http_status = 403 \<rparr>
         \<and> message (permissionDeniedError (Some p))
             = Some (''User lacks required permission: '' @ key_name p)
         \<and> error (permissionDeniedError (Some p)) \<noteq> error adminAccessRequiredError"
  using assms
  by (simp add: authorizeRequest_def authorize_try_def check_required_def Let_def
        permissionDeniedError_def adminAccessRequiredError_def)

text \<open>
  C4, at the input where the code departs from it. A moderator holds
  \<^verbatim>\<open>users.view\<close> and lacks \<^verbatim>\<open>users.delete\<close>. Asked for both under AND semantics,
  \<open>authorizeRequest\<close> denies, and the response names \<^verbatim>\<open>users.view\<close>, the first key
  of the list, which the moderator holds; the key that is missing is not in the response.
\<close>

theorem authorizeRequest_names_permission_held:
  "\<not> authorized (authorizeRequest sample_backend \<lparr> authorization = Some ''Bearer tok2'' \<rparr>
        (Some (Many [Users_view, Users_delete])) True)
   \<and> response (authorizeRequest sample_backend \<lparr> authorization = Some ''Bearer tok2'' \<rparr>
        (Some (Many [Users_view, Users_delete])) True)
      = Some \<lparr> body = \<lparr> success = False, error = Some ''PERMISSION_DENIED'',
                         message = Some ''User lacks required permission: users.view'',
                         body_status = Some 403, payload = None \<rparr>,
                http_status = 403 \<rparr>
   \<and> context (authorizeRequest sample_backend \<lparr> authorization = Some ''Bearer tok2'' \<rparr>
        (Some (Many [Users_view, Users_delete])) True)
      = Some (createAuthorizationContext moderator_admin)
   \<and> hasPermission (createAuthorizationContext moderator_admin) Users_view
   \<and> \<not> hasPermission (createAuthorizationContext moderator_admin) Users_delete"
  by (simp add: authorizeRequest_def authorize_try_def sample_backend_def startsWith_Bearer_def
        select_active_by_user_def root_admin_def moderator_admin_def check_required_def
        createAuthorizationContext_def getRolePermissions_def basePermissions_def
        ROLE_PERMISSIONS_def hasPermission_def permissionDeniedError_def)

text \<open>With the empty list under OR semantics the check fails for every context, the list
  has no first key, and the response of an active super admin reads
  \<^verbatim>\<open>User does not have admin access\<close>.\<close>

lemma authorizeRequest_empty_list_any:
  "response (authorizeRequest sample_backend \<lparr> authorization = Some ''Bearer tok1'' \<rparr>
        (Some (Many [])) False)
      = Some \<lparr> body = \<lparr> success = False, error = Some ''PERMISSION_DENIED'',
                         message = Some ''User does not have admin access'',
                         body_status = Some 403, payload = None \<rparr>,
                http_status = 403 \<rparr>
   \<and> is_admin (createAuthorizationContext root_admin)"
  by (simp add: authorizeRequest_def authorize_try_def sample_backend_def startsWith_Bearer_def
        select_active_by_user_def root_admin_def moderator_admin_def check_required_def
        createAuthorizationContext_def permissionDeniedError_def)

subsection \<open>Internal faults\<close>

text \<open>An exception thrown inside the \<^verbatim>\<open>try\<close> block gives the 500 response, which is not
  the access-denied response; each of the three collaborator calls can throw.\<close>

lemma authorizeRequest_rejected:
  assumes "authorize_try be req rp requireAll = Rejected"
  shows "response (authorizeRequest be req rp requireAll) = Some internal_error
         \<and> http_status internal_error = 500
         \<and> internal_error \<noteq> \<lparr> body = adminAccessRequiredError, http_status = 403 \<rparr>"
  using assms by (simp add: authorizeRequest_def internal_error_def)

lemma authorize_try_rejects:
  "createClient be = Rejected \<Longrightarrow> authorize_try be req rp requireAll = Rejected"
  "createClient be = Resolved () \<Longrightarrow> authorization req = Some h \<Longrightarrow> startsWith_Bearer h
     \<Longrightarrow> getUser be (drop 7 h) = Rejected \<Longrightarrow> authorize_try be req rp requireAll = Rejected"
  "createClient be = Resolved () \<Longrightarrow> authorization req = Some h \<Longrightarrow> startsWith_Bearer h
     \<Longrightarrow> getUser be (drop 7 h) = Resolved \<lparr> reply_data = Some uid, reply_error = None \<rparr>
     \<Longrightarrow> find_active_admin be uid = Rejected \<Longrightarrow> authorize_try be req rp requireAll = Rejected"
  by (simp_all add: authorize_try_def)

subsection \<open>The empty list of required permissions\<close>

text \<open>
  C10: for every context, \<open>hasAllPermissions\<close> holds of the empty list and
  \<open>hasAnyPermission\<close> does not. So the permission check of \<open>authorizeRequest\<close> with
  the empty list under AND semantics passes for every context, and a caller with a valid
  token and an active admin row is authorized.
\<close>

theorem empty_required_list:
  "hasAllPermissions ctx [] \<and> \<not> hasAnyPermission ctx []
   \<and> authorized (check_required ctx uid adminData (Some (Many [])) True)
   \<and> (createClient be = Resolved () \<and> authorization req = Some authHeader
        \<and> startsWith_Bearer authHeader
        \<and> getUser be (drop 7 authHeader) = Resolved \<lparr> reply_data = Some uid, reply_error = None \<rparr>
        \<and> find_active_admin be uid = Resolved \<lparr> reply_data = Some adminData, reply_error = None \<rparr>
       \<longrightarrow> authorized (authorizeRequest be req (Some (Many [])) True))"
  by (simp add: hasAllPermissions_def hasAnyPermission_def check_required_def
        authorizeRequest_def authorize_try_def)

text \<open>The moderator of the sample table, asking with the empty list.\<close>

theorem empty_required_list_witness:
  "createClient sample_backend = Resolved ()
   \<and> authorization \<lparr> authorization = Some ''Bearer tok2'' \<rparr> = Some ''Bearer tok2''
   \<and> startsWith_Bearer ''Bearer tok2''
   \<and> getUser sample_backend (drop 7 ''Bearer tok2'')
       = Resolved \<lparr> reply_data = Some ''u2'', reply_error = None \<rparr>
   \<and> find_active_admin sample_backend ''u2''
       = Resolved \<lparr> reply_data = Some moderator_admin, reply_error = None \<rparr>
   \<and> authorized (authorizeRequest sample_backend \<lparr> authorization = Some ''Bearer tok2'' \<rparr>
         (Some (Many [])) True)"
proof -
  have h: "createClient sample_backend = Resolved ()
   \<and> authorization \<lparr> authorization = Some ''Bearer tok2'' \<rparr> = Some ''Bearer tok2''
   \<and> startsWith_Bearer ''Bearer tok2''
   \<and> getUser sample_backend (drop 7 ''Bearer tok2'')
       = Resolved \<lparr> reply_data = Some ''u2'', reply_error = None \<rparr>
   \<and> find_active_admin sample_backend ''u2''
       = Resolved \<lparr> reply_data = Some moderator_admin, reply_error = None \<rparr>"
    by (simp add: sample_backend_def startsWith_Bearer_def select_active_by_user_def
          root_admin_def moderator_admin_def)
  from empty_required_list [of _ "''u2''" moderator_admin sample_backend
        "\<lparr> authorization = Some ''Bearer tok2'' \<rparr>" "''Bearer tok2''"] h
  show ?thesis by blast
qed

section \<open>Self-protection in the routes\<close>

lemma caller_super_admin_uid:
  assumes "caller_super_admin be rows req = Resolved (Inr uid)"
  shows "\<exists>h u. authorization req = Some h \<and> getUser be (drop 7 h) = Resolved u
           \<and> reply_data u = Some uid"
  using assms
  by (auto simp: caller_super_admin_def
           split: awaited.splits option.splits if_splits)

text \<open>DELETE on the caller's own record never succeeds and leaves the table as it was.\<close>

lemma DELETE_keeps_own_record:
  assumes "authorization req = Some h" and "getUser be (drop 7 h) = Resolved u"
      and "reply_data u = Some uid"
      and "reply_data (select_by_id rows i) = Some targetAdmin"
      and "row_user_id targetAdmin = uid"
  shows "snd (DELETE be rows req i) = rows \<and> \<not> success (body (fst (DELETE be rows req i)))"
proof (cases "caller_super_admin be rows req")
  case Rejected
  then show ?thesis by (simp add: DELETE_def DELETE_try_def internal_error_def)
next
  case (Resolved x)
  show ?thesis
  proof (cases x)
    case (Inl resp)
    with Resolved have "\<not> success (body resp)"
      by (auto simp: caller_super_admin_def json_def adminAccessRequiredError_def
            permissionDeniedError_def split: awaited.splits option.splits if_splits)
    with Resolved Inl show ?thesis by (simp add: DELETE_def DELETE_try_def)
  next
    case (Inr uid')
    with Resolved caller_super_admin_uid [of be rows req uid'] assms have "uid' = uid"
      by auto
    with Resolved Inr assms show ?thesis
      by (simp add: DELETE_def DELETE_try_def json_def failure_def)
  qed
qed

lemma DELETE_own_record_sample:
  "DELETE sample_backend [root_admin, moderator_admin]
      \<lparr> authorization = Some ''Bearer tok1'' \<rparr> ''a1''
   = (json (failure ''Cannot remove your own admin access'') 400, [root_admin, moderator_admin])"
  by (simp add: DELETE_def DELETE_try_def caller_super_admin_def sample_backend_def root_admin_def
      moderator_admin_def startsWith_Bearer_def select_active_by_user_def select_by_id_def)

text \<open>
  C3, at the input where the code departs from it. The super admin \<^verbatim>\<open>u1\<close> sends PATCH
  for the record \<^verbatim>\<open>a1\<close>, which is their own, with status \<^verbatim>\<open>suspended\<close>. PATCH
  compares no identities: it answers 200 and the row is written with status suspended.
\<close>

theorem PATCH_suspends_own_record:
  "PATCH sample_backend ''t1'' [root_admin, moderator_admin]
      \<lparr> authorization = Some ''Bearer tok1'' \<rparr> ''a1'' (Resolved suspend_request)
   = (json \<lparr> success = True, error = None, message = Some ''Admin role updated'',
             body_status = None,
             payload = Some (root_admin \<lparr> status := Suspended, updated_at := ''t1'' \<rparr>) \<rparr> 200,
      [root_admin \<lparr> status := Suspended, updated_at := ''t1'' \<rparr>, moderator_admin])
   \<and> row_user_id root_admin = ''u1''
   \<and> getUser sample_backend ''tok1'' = Resolved \<lparr> reply_data = Some ''u1'', reply_error = None \<rparr>"
  by (simp add: PATCH_def PATCH_try_def caller_super_admin_def sample_backend_def root_admin_def
      moderator_admin_def suspend_request_def startsWith_Bearer_def
      select_active_by_user_def select_by_id_def build_update_def status_of_name_def db_update_def
      apply_update_def admin_users_role_check_def json_def)

text \<open>The same caller demotes their own record to analyst.\<close>

lemma PATCH_demotes_own_record:
  "PATCH sample_backend ''t1'' [root_admin, moderator_admin]
      \<lparr> authorization = Some ''Bearer tok1'' \<rparr> ''a1'' (Resolved demote_request)
   = (json \<lparr> success = True, error = None, message = Some ''Admin role updated'',
             body_status = None,
             payload = Some (root_admin \<lparr> row_role := Analyst, updated_at := ''t1'' \<rparr>) \<rparr> 200,
      [root_admin \<lparr> row_role := Analyst, updated_at := ''t1'' \<rparr>, moderator_admin])"
  by (simp add: PATCH_def PATCH_try_def caller_super_admin_def sample_backend_def root_admin_def
      moderator_admin_def demote_request_def startsWith_Bearer_def
      select_active_by_user_def select_by_id_def build_update_def role_of_name_def db_update_def
      apply_update_def admin_users_role_check_def json_def)

section \<open>The audit action\<close>

text \<open>
  C7, as the code has it. The tag is \<^verbatim>\<open>created\<close> on insert and \<^verbatim>\<open>deleted\<close> on
  delete. On update it follows the two statuses alone: \<^verbatim>\<open>reactivated\<close> exactly when
  the status goes from suspended to active, \<^verbatim>\<open>suspended\<close> exactly when the status
  becomes suspended from active or inactive, in both cases whether or not the role or the
  permissions change in the same update, and \<^verbatim>\<open>updated\<close> for every other update. Where
  only the status changes and the old status is not inactive, this is the tag the
  specification gives.
\<close>

theorem action_type_by_status:
  "action_type (TG_INSERT new) = ''created''
   \<and> action_type (TG_DELETE old) = ''deleted''
   \<and> (action_type (TG_UPDATE old new) = ''reactivated'')
        = (status old = Suspended \<and> status new = Active)
   \<and> (action_type (TG_UPDATE old new) = ''suspended'')
        = (status new = Suspended \<and> status old \<noteq> Suspended)
   \<and> (action_type (TG_UPDATE old new) = ''updated'')
        = (\<not> (status old = Suspended \<and> status new = Active)
           \<and> \<not> (status new = Suspended \<and> status old \<noteq> Suspended))
   \<and> (only_status_changes old new \<and> status old \<noteq> Inactive
        \<longrightarrow> action_type (TG_UPDATE old new) = specified_action (TG_UPDATE old new))"
  by (cases "status old"; cases "status new") (simp_all add: only_status_changes_def)

text \<open>Suspending an active moderator, with nothing else changed.\<close>

theorem action_type_by_status_witness:
  "only_status_changes moderator_admin (moderator_admin \<lparr> status := Suspended \<rparr>)
   \<and> status moderator_admin \<noteq> Inactive
   \<and> action_type (TG_UPDATE moderator_admin (moderator_admin \<lparr> status := Suspended \<rparr>))
       = ''suspended''
   \<and> specified_action (TG_UPDATE moderator_admin (moderator_admin \<lparr> status := Suspended \<rparr>))
       = ''suspended''"
proof -
  have h: "only_status_changes moderator_admin (moderator_admin \<lparr> status := Suspended \<rparr>)
           \<and> status moderator_admin \<noteq> Inactive"
    by (simp add: only_status_changes_def moderator_admin_def)
  from action_type_by_status [of "moderator_admin \<lparr> status := Suspended \<rparr>" moderator_admin] h
  show ?thesis by (simp add: moderator_admin_def)
qed

text \<open>
  Two updates where the trigger's tag is not the specified one: a moderator made a
  support agent and suspended in one update, and an inactive moderator suspended. The
  trigger tags both \<^verbatim>\<open>suspended\<close>; in the first the role changes too, in the second the
  status does not move between suspended and active.
\<close>

theorem audit_action_differs:
  "action_type (TG_UPDATE moderator_admin
       (moderator_admin \<lparr> row_role := Support, status := Suspended \<rparr>)) = ''suspended''
   \<and> specified_action (TG_UPDATE moderator_admin
       (moderator_admin \<lparr> row_role := Support, status := Suspended \<rparr>)) = ''updated''
   \<and> action_type (TG_UPDATE (moderator_admin \<lparr> status := Inactive \<rparr>)
       (moderator_admin \<lparr> status := Suspended \<rparr>)) = ''suspended''
   \<and> specified_action (TG_UPDATE (moderator_admin \<lparr> status := Inactive \<rparr>)
       (moderator_admin \<lparr> status := Suspended \<rparr>)) = ''updated''"
  by (simp add: moderator_admin_def only_status_changes_def)

end
